theory Spec2Isabelle
  imports Complex_Main
begin

section \<open>The connection store (GridProvider)\<close>

text \<open>
  The store is the React component \<^verbatim>\<open>GridProvider\<close>. Its state lives in six
  \<^verbatim>\<open>useState\<close> cells, next to the provider and the client, which are created once and
  never replaced. The record below is the interface \<^verbatim>\<open>GridProviderContext\<close> of the
  source without its two setter functions: it is the value handed to the consumers on
  every render. A chain id is a JavaScript number holding an integer; an address is a
  string.
\<close>

type_synonym address = string

datatype up_provider = UPProvider

datatype wallet_client = WalletClient

datatype js_error = Error string | TypeError string | Rejection string

record GridProviderContext =
  provider :: "up_provider option"
  client :: "wallet_client option"
  chainId :: int
  accounts :: "address list"
  contextAccounts :: "address list"
  walletConnected :: bool
  selectedAddress :: "address option"
  isSearching :: bool

subsection \<open>The accessor useGrid\<close>

text \<open>
  \<^verbatim>\<open>GridContext = createContext(undefined)\<close>: reading the context gives the value of
  the nearest enclosing \<^verbatim>\<open>GridContext.Provider\<close>, and the default \<^verbatim>\<open>undefined\<close>
  when there is none. The enclosing providers are the list of their values, the nearest
  first. \<^verbatim>\<open>GridProvider\<close> always supplies an object, which is truthy, so
  \<^verbatim>\<open>!context\<close> holds exactly for \<^verbatim>\<open>undefined\<close>.
\<close>

definition useContext :: "'a option \<Rightarrow> 'a list \<Rightarrow> 'a option" where
  "useContext dflt scopes = (case scopes of [] \<Rightarrow> dflt | v # _ \<Rightarrow> Some v)"

definition useGrid :: "GridProviderContext list \<Rightarrow> js_error + GridProviderContext" where
  "useGrid scopes =
     (case useContext None scopes of
        None \<Rightarrow> Inl (Error ''useGrid must be used within a GridProvider'')
      | Some context \<Rightarrow> Inr context)"

subsection \<open>Effect runs, the init coroutine and the event handlers\<close>

text \<open>
  Each run of the effect of \<^verbatim>\<open>GridProvider\<close> has its own variable \<^verbatim>\<open>mounted\<close>, its
  own call of the asynchronous function \<^verbatim>\<open>init\<close>, and its own three handlers. The
  handlers are closures: \<^verbatim>\<open>accounts\<close> and \<^verbatim>\<open>contextAccounts\<close> inside them are the
  values of the render that ran the effect. \<open>pc\<close> is where \<^verbatim>\<open>init\<close> of this run is
  suspended; \<open>listening\<close> says whether the handlers of this run are registered on the
  provider.
\<close>

datatype init_pc = AwaitChainId | AwaitAddresses | Finished

record effect_run =
  mounted :: bool
  pc :: init_pc
  cap_accounts :: "address list"
  cap_contextAccounts :: "address list"
  listening :: bool

record store =
  ctx :: GridProviderContext
  effects :: "effect_run list"
  console :: "js_error list"
  unmounted :: bool

text \<open>The state cells start at \<open>0\<close>, \<open>[]\<close>, \<open>[]\<close>, \<open>false\<close>, \<open>null\<close>, \<open>false\<close>. The
  provider exists when \<^verbatim>\<open>window\<close> does, and the client when the provider does.\<close>

definition initial_context :: "up_provider option \<Rightarrow> GridProviderContext" where
  "initial_context p =
     \<lparr>provider = p,
      client = (case p of None \<Rightarrow> None | Some _ \<Rightarrow> Some WalletClient),
      chainId = 0, accounts = [], contextAccounts = [], walletConnected = False,
      selectedAddress = None, isSearching = False\<rparr>"

text \<open>\<^verbatim>\<open>init\<close> up to its first \<^verbatim>\<open>await\<close>: it returns at once without client or
  provider, and otherwise waits for \<^verbatim>\<open>client.getChainId()\<close>.\<close>

definition init_start :: "GridProviderContext \<Rightarrow> init_pc" where
  "init_start c = (if client c = None \<or> provider c = None then Finished else AwaitChainId)"

text \<open>The three handlers. \<open>r\<close> is the effect run whose closure the handler is.\<close>

definition accountsChanged ::
  "effect_run \<Rightarrow> address list \<Rightarrow> GridProviderContext \<Rightarrow> GridProviderContext" where
  "accountsChanged r accounts' c =
     c\<lparr>accounts := accounts',
       walletConnected := (length accounts' > 0 \<and> length (cap_contextAccounts r) > 0)\<rparr>"

definition contextAccountsChanged ::
  "effect_run \<Rightarrow> address list \<Rightarrow> GridProviderContext \<Rightarrow> GridProviderContext" where
  "contextAccountsChanged r accounts' c =
     c\<lparr>contextAccounts := accounts',
       walletConnected := (length (cap_accounts r) > 0 \<and> length accounts' > 0)\<rparr>"

definition chainChanged ::
  "effect_run \<Rightarrow> int \<Rightarrow> GridProviderContext \<Rightarrow> GridProviderContext" where
  "chainChanged r chainId' c = c\<lparr>chainId := chainId'\<rparr>"

text \<open>One run of the effect body: \<^verbatim>\<open>mounted = true\<close>, \<^verbatim>\<open>init()\<close> is started, and
  with a provider the three handlers are registered.\<close>

definition run_effect :: "store \<Rightarrow> store" where
  "run_effect w =
     w\<lparr>effects := effects w @
        [\<lparr>mounted = True, pc = init_start (ctx w),
          cap_accounts = accounts (ctx w),
          cap_contextAccounts = contextAccounts (ctx w),
          listening = (provider (ctx w) \<noteq> None)\<rparr>]\<rparr>"

text \<open>The cleanup of the latest run. The effect returns a cleanup only inside
  \<^verbatim>\<open>if (provider)\<close>; it clears \<^verbatim>\<open>mounted\<close> and removes the three listeners.\<close>

definition cleanup :: "store \<Rightarrow> store" where
  "cleanup w =
     (if provider (ctx w) = None \<or> effects w = [] then w
      else w\<lparr>effects := butlast (effects w) @
             [(last (effects w))\<lparr>mounted := False, listening := False\<rparr>]\<rparr>)"

text \<open>The dependency array is \<^verbatim>\<open>[client, provider, accounts.length,
  contextAccounts.length]\<close>. Client and provider never change, and the two lengths of
  the render that ran the latest effect are the lengths of the arrays its closures hold.\<close>

definition deps_changed :: "store \<Rightarrow> bool" where
  "deps_changed w =
     (effects w = [] \<or>
      length (accounts (ctx w)) \<noteq> length (cap_accounts (last (effects w))) \<or>
      length (contextAccounts (ctx w)) \<noteq> length (cap_contextAccounts (last (effects w))))"

definition render :: "store \<Rightarrow> store" where
  "render w = (if unmounted w \<or> \<not> deps_changed w then w else run_effect (cleanup w))"

definition mount :: "up_provider option \<Rightarrow> store" where
  "mount p = run_effect \<lparr>ctx = initial_context p, effects = [], console = [], unmounted = False\<rparr>"

definition unmount :: "store \<Rightarrow> store" where
  "unmount w = (cleanup w)\<lparr>unmounted := True\<rparr>"

text \<open>\<^verbatim>\<open>init\<close> of run \<open>i\<close> resumes after \<^verbatim>\<open>await client.getChainId()\<close>.\<close>

definition resume_chainId :: "nat \<Rightarrow> int \<Rightarrow> store \<Rightarrow> store" where
  "resume_chainId i chainId' w =
     (let r = effects w ! i in
      if \<not> mounted r then w\<lparr>effects := (effects w)[i := r\<lparr>pc := Finished\<rparr>]\<rparr>
      else w\<lparr>ctx := (ctx w)\<lparr>chainId := chainId'\<rparr>,
             effects := (effects w)[i := r\<lparr>pc := AwaitAddresses\<rparr>]\<rparr>)"

text \<open>\<^verbatim>\<open>init\<close> of run \<open>i\<close> resumes after \<^verbatim>\<open>await client.getAddresses()\<close>;
  \<open>contextAccounts'\<close> is what \<^verbatim>\<open>provider.contextAccounts\<close> holds at that moment.\<close>

definition resume_addresses :: "nat \<Rightarrow> address list \<Rightarrow> address list \<Rightarrow> store \<Rightarrow> store" where
  "resume_addresses i accounts' contextAccounts' w =
     (let r = effects w ! i;
          w' = w\<lparr>effects := (effects w)[i := r\<lparr>pc := Finished\<rparr>]\<rparr> in
      if \<not> mounted r then w'
      else w'\<lparr>ctx := (ctx w)\<lparr>accounts := accounts',
                              contextAccounts := contextAccounts',
                              walletConnected :=
                                (length accounts' > 0 \<and> length contextAccounts' > 0)\<rparr>\<rparr>)"

text \<open>A query of run \<open>i\<close> fails: the \<^verbatim>\<open>catch\<close> block logs the error and \<^verbatim>\<open>init\<close>
  ends.\<close>

definition reject_query :: "nat \<Rightarrow> js_error \<Rightarrow> store \<Rightarrow> store" where
  "reject_query i e w =
     w\<lparr>effects := (effects w)[i := (effects w ! i)\<lparr>pc := Finished\<rparr>],
       console := console w @ [e]\<rparr>"

text \<open>The provider emits an event: the registered handlers run, in the order of their
  registration.\<close>

definition emit ::
  "(effect_run \<Rightarrow> 'a \<Rightarrow> GridProviderContext \<Rightarrow> GridProviderContext) \<Rightarrow> 'a \<Rightarrow> store \<Rightarrow> store" where
  "emit handler arg w =
     w\<lparr>ctx := foldl (\<lambda>c r. if listening r then handler r arg c else c) (ctx w) (effects w)\<rparr>"

text \<open>What can happen to a mounted store, one thing at a time (the event loop is
  single-threaded): a pending query of some effect run settles, the provider emits, React
  renders the component again, or unmounts it. A settlement for a run that is not waiting
  for it does not happen.\<close>

datatype event =
    ChainIdResolved nat int
  | AddressesResolved nat "address list" "address list"
  | QueryRejected nat js_error
  | AccountsChanged "address list"
  | ContextAccountsChanged "address list"
  | ChainChanged int
  | Render
  | Unmount

fun step :: "store \<Rightarrow> event \<Rightarrow> store" where
  "step w (ChainIdResolved i n) =
     (if i < length (effects w) \<and> pc (effects w ! i) = AwaitChainId
      then resume_chainId i n w else w)"
| "step w (AddressesResolved i as cs) =
     (if i < length (effects w) \<and> pc (effects w ! i) = AwaitAddresses
      then resume_addresses i as cs w else w)"
| "step w (QueryRejected i e) =
     (if i < length (effects w) \<and> pc (effects w ! i) \<noteq> Finished
      then reject_query i e w else w)"
| "step w (AccountsChanged as) = emit accountsChanged as w"
| "step w (ContextAccountsChanged cs) = emit contextAccountsChanged cs w"
| "step w (ChainChanged n) = emit chainChanged n w"
| "step w Render = render w"
| "step w Unmount = unmount w"

definition run :: "store \<Rightarrow> event list \<Rightarrow> store" where
  "run w es = foldl step w es"

text \<open>Which effect runs can still write. A run is \<open>quiet\<close> when its handlers are not
  registered and its \<^verbatim>\<open>init\<close> has ended or will stop at its next liveness check; it is
  \<open>idle\<close> when \<^verbatim>\<open>init\<close> has ended. In a reachable store every run but the latest is
  quiet (\<open>settled\<close>): React ran its cleanup before the next run started.\<close>

definition quiet :: "effect_run \<Rightarrow> bool" where
  "quiet r = (\<not> listening r \<and> (\<not> mounted r \<or> pc r = Finished))"

definition idle :: "effect_run \<Rightarrow> bool" where
  "idle r = (\<not> listening r \<and> pc r = Finished)"

definition settled :: "store \<Rightarrow> bool" where
  "settled w =
     (\<forall>i < length (effects w).
        provider (ctx w) = None \<or> Suc i < length (effects w) \<longrightarrow> quiet (effects w ! i))"

definition dead :: "store \<Rightarrow> bool" where
  "dead w = (unmounted w \<and> (\<forall>r \<in> set (effects w). quiet r))"

definition dormant :: "store \<Rightarrow> bool" where
  "dormant w =
     (ctx w = initial_context None \<and> console w = [] \<and> (\<forall>r \<in> set (effects w). idle r))"

section \<open>The profile card (LuksoProfile)\<close>

text \<open>
  \<^verbatim>\<open>fetchProfileImage\<close> asks the metadata registry for the key \<^verbatim>\<open>LSP3Profile\<close> of an
  address and copies the name and the first profile and background image into the state
  of the component. What the registry answers is an input of the model:
  \<^item> \<open>FetchFailed e\<close>: the constructor or \<^verbatim>\<open>fetchData\<close> throws \<open>e\<close>;
  \<^item> \<open>NoProfile\<close>: the answer has no object value with a key \<^verbatim>\<open>LSP3Profile\<close>;
  \<^item> \<open>HasProfile v\<close>: it has, and \<open>v\<close> is what the key holds (\<open>None\<close> for
    \<^verbatim>\<open>null\<close> or \<^verbatim>\<open>undefined\<close>, where reading \<^verbatim>\<open>.profileImage\<close> throws).
  An absent property is \<open>None\<close>. The two \<^verbatim>\<open>console.log\<close> calls are left out.
\<close>

definition IPFS_GATEWAY :: string where
  "IPFS_GATEWAY = ''https://api.universalprofile.cloud/ipfs/''"

text \<open>\<^verbatim>\<open>s.replace(pat, rep)\<close> with a string pattern replaces the leftmost occurrence of
  \<open>pat\<close> in \<open>s\<close>, and nothing when there is none. \<open>rep\<close> is inserted as it is when it has
  no dollar sign, which is so for the gateway.\<close>

fun replace :: "string \<Rightarrow> string \<Rightarrow> string \<Rightarrow> string" where
  "replace pat rep [] = (if pat = [] then rep else [])"
| "replace pat rep (c # cs) =
     (if take (length pat) (c # cs) = pat then rep @ drop (length pat) (c # cs)
      else c # replace pat rep cs)"

text \<open>A string or \<^verbatim>\<open>undefined\<close> is truthy when it is a non-empty string.\<close>

definition truthy :: "string option \<Rightarrow> bool" where
  "truthy s = (case s of None \<Rightarrow> False | Some v \<Rightarrow> v \<noteq> [])"

record image_entry =
  url :: "string option"

record LSP3Profile =
  name :: "string option"
  profileImage :: "image_entry list option"
  backgroundImage :: "image_entry list option"

datatype fetched_data = FetchFailed js_error | NoProfile | HasProfile "LSP3Profile option"

record profile_state =
  profileImgUrl :: string
  fullName :: "string option"
  profileBackground :: string
  logged :: "js_error list"

definition profile_initial :: profile_state where
  "profile_initial =
     \<lparr>profileImgUrl = ''https://tools-web-components.pages.dev/images/sample-avatar.jpg'',
      fullName = Some [], profileBackground = [], logged = []\<rparr>"

text \<open>\<^verbatim>\<open>images?.[0]?.url\<close>, when it is truthy.\<close>

definition first_url :: "image_entry list option \<Rightarrow> string option" where
  "first_url images =
     (case images of
        None \<Rightarrow> None
      | Some [] \<Rightarrow> None
      | Some (i # _) \<Rightarrow> (if truthy (url i) then url i else None))"

definition fetchProfileImage ::
  "string option \<Rightarrow> fetched_data \<Rightarrow> profile_state \<Rightarrow> profile_state" where
  "fetchProfileImage address fetchedData s =
     (if \<not> truthy address then s
      else case fetchedData of
        FetchFailed e \<Rightarrow> s\<lparr>logged := logged s @ [e]\<rparr>
      | NoProfile \<Rightarrow> s
      | HasProfile None \<Rightarrow>
          s\<lparr>logged := logged s @ [TypeError ''Cannot read properties of undefined'']\<rparr>
      | HasProfile (Some p) \<Rightarrow>
          (let s1 = s\<lparr>fullName := name p\<rparr>;
               s2 = (case first_url (profileImage p) of
                       None \<Rightarrow> s1
                     | Some u \<Rightarrow> s1\<lparr>profileImgUrl := replace ''ipfs://'' IPFS_GATEWAY u\<rparr>);
               s3 = (case first_url (backgroundImage p) of
                       None \<Rightarrow> s2
                     | Some u \<Rightarrow> s2\<lparr>profileBackground := replace ''ipfs://'' IPFS_GATEWAY u\<rparr>)
           in s3))"

section \<open>The transfer form (Donate)\<close>

text \<open>
  A JavaScript number is \<^verbatim>\<open>NaN\<close>, an infinity, or a finite double, which is a real
  number; \<open>+0\<close> and \<open>-0\<close> are both \<open>Finite 0\<close> (they compare equal and both are
  falsy). The comparisons \<^verbatim>\<open><\<close> and \<^verbatim>\<open>>\<close> order finite doubles as the reals they are
  and are false as soon as one side is \<^verbatim>\<open>NaN\<close>. No arithmetic is done on amounts
  here, so no rounding enters.
\<close>

datatype jsnum = NaN | NegInfinity | Finite real | Infinity

fun js_lt :: "jsnum \<Rightarrow> jsnum \<Rightarrow> bool" where
  "js_lt NaN _ = False"
| "js_lt _ NaN = False"
| "js_lt (Finite x) (Finite y) = (x < y)"
| "js_lt _ NegInfinity = False"
| "js_lt NegInfinity _ = True"
| "js_lt Infinity _ = False"
| "js_lt _ Infinity = True"

definition js_gt :: "jsnum \<Rightarrow> jsnum \<Rightarrow> bool" where
  "js_gt a b = js_lt b a"

text \<open>\<^verbatim>\<open>!amount\<close> for a number.\<close>

definition falsy :: "jsnum \<Rightarrow> bool" where
  "falsy v = (v = NaN \<or> v = Finite 0)"

text \<open>The two bounds are the integers \<open>1\<close> (written \<^verbatim>\<open>1.0\<close>) and \<open>1000\<close>. A template
  literal renders a number that is an integer below \<open>10^21\<close> in magnitude by its decimal
  digits, with no fraction.\<close>

definition minAmount :: int where
  "minAmount = 1"

definition maxAmount :: int where
  "maxAmount = 1000"

definition number :: "int \<Rightarrow> jsnum" where
  "number i = Finite (of_int i)"

definition digit :: "nat \<Rightarrow> char" where
  "digit d = ''0123456789'' ! d"

fun show_nat :: "nat \<Rightarrow> string" where
  "show_nat n = (if n < 10 then [digit n] else show_nat (n div 10) @ [digit (n mod 10)])"

declare show_nat.simps [simp del]

definition int_toString :: "int \<Rightarrow> string" where
  "int_toString i = (if i < 0 then CHR ''-'' # show_nat (nat (- i)) else show_nat (nat i))"

record Donate_state =
  amount :: jsnum
  error :: string

definition Donate_initial :: Donate_state where
  "Donate_initial = \<lparr>amount = number minAmount, error = []\<rparr>"

definition validateAmount :: "jsnum \<Rightarrow> Donate_state \<Rightarrow> Donate_state" where
  "validateAmount v d =
     (let d' = (if js_lt v (number minAmount)
                then d\<lparr>error := ''Amount must be at least '' @ int_toString minAmount @ '' LYX.''\<rparr>
                else if js_gt v (number maxAmount)
                then d\<lparr>error := ''Amount cannot exceed '' @ int_toString maxAmount @ '' LYX.''\<rparr>
                else d\<lparr>error := []\<rparr>)
      in d'\<lparr>amount := v\<rparr>)"

text \<open>The effect with the dependencies \<^verbatim>\<open>[amount, validateAmount]\<close> validates the
  stored amount again after it has changed.\<close>

definition revalidate :: "Donate_state \<Rightarrow> Donate_state" where
  "revalidate d = validateAmount (amount d) d"

text \<open>\<^verbatim>\<open>Number.parseFloat\<close> is the language's own; the handler takes it as a
  parameter.\<close>

definition handleOnInput ::
  "(string \<Rightarrow> jsnum) \<Rightarrow> string \<Rightarrow> Donate_state \<Rightarrow> Donate_state" where
  "handleOnInput parseFloat target_value d = validateAmount (parseFloat target_value) d"

text \<open>\<^verbatim>\<open>xs[0]\<close> is \<^verbatim>\<open>undefined\<close> on an empty array.\<close>

definition element0 :: "'a list \<Rightarrow> 'a option" where
  "element0 xs = (case xs of [] \<Rightarrow> None | x # _ \<Rightarrow> Some x)"

text \<open>\<^verbatim>\<open>selectedAddress || contextAccounts[0]\<close>.\<close>

definition recipientAddress :: "address option \<Rightarrow> address list \<Rightarrow> address option" where
  "recipientAddress sel cs = (if truthy sel then sel else element0 cs)"

record transaction_request =
  tx_account :: "address option"
  tx_to :: "address option"
  tx_value :: int

text \<open>
  \<^verbatim>\<open>sendToken\<close> reads the client, the accounts and the connected flag from the
  connection context \<open>c\<close>, the prop \<^verbatim>\<open>selectedAddress\<close> (\<open>sel\<close>) and the current amount.
  The context is what the hook \<^verbatim>\<open>useUpProvider\<close> returned; the fields read from it are
  fields of \<^verbatim>\<open>GridProviderContext\<close>, so \<open>c\<close> has that type and is an input.
  Three functions are not the repository's and are parameters: the number's
  \<^verbatim>\<open>toString\<close>, \<^verbatim>\<open>parseUnits\<close>, which may throw, and \<^verbatim>\<open>client.sendTransaction\<close>,
  whose promise may reject. The result is the list of requests submitted to the client and
  the error the call ends with, if any. The properties of the request are evaluated
  before the call, so a throwing \<^verbatim>\<open>parseUnits\<close> submits nothing.
\<close>

definition sendToken ::
  "(jsnum \<Rightarrow> string) \<Rightarrow> (string \<Rightarrow> nat \<Rightarrow> js_error + int) \<Rightarrow>
   (transaction_request \<Rightarrow> js_error + string) \<Rightarrow>
   GridProviderContext \<Rightarrow> address option \<Rightarrow> Donate_state \<Rightarrow>
   transaction_request list \<times> js_error option" where
  "sendToken toString parseUnits sendTransaction c sel d =
     (if client c = None \<or> \<not> walletConnected c \<or> falsy (amount d) then ([], None)
      else case parseUnits (toString (amount d)) 18 of
        Inl e \<Rightarrow> ([], Some e)
      | Inr v \<Rightarrow>
          (let request = \<lparr>tx_account = element0 (accounts c),
                          tx_to = recipientAddress sel (contextAccounts c),
                          tx_value = v\<rparr>
           in ([request],
               case sendTransaction request of Inl e \<Rightarrow> Some e | Inr _ \<Rightarrow> None)))"

section \<open>Properties of the connection store\<close>

subsection \<open>Handlers that are not registered do nothing\<close>

lemma foldl_not_listening:
  "\<forall>r \<in> set rs. \<not> listening r \<Longrightarrow>
   foldl (\<lambda>c r. if listening r then h r a c else c) c0 rs = c0"
  by (induction rs arbitrary: c0) auto

lemma emit_silent: "\<forall>r \<in> set (effects w). \<not> listening r \<Longrightarrow> emit h a w = w"
  by (simp add: emit_def foldl_not_listening)

lemma provider_emit:
  assumes "\<And>r a c. provider (h r a c) = provider c"
  shows "provider (foldl (\<lambda>c r. if listening r then h r a c else c) c0 rs) = provider c0"
  by (induction rs arbitrary: c0) (simp_all add: assms)

subsection \<open>A store whose runs are all quiet never changes its state again\<close>

lemma set_update_quiet:
  assumes "\<forall>r \<in> set rs. quiet r" and "quiet y"
  shows "\<forall>r \<in> set (rs[i := y]). quiet r"
proof
  fix r assume "r \<in> set (rs[i := y])"
  then have "r \<in> insert y (set rs)" using set_update_subset_insert by fast
  with assms show "quiet r" by auto
qed

lemma finish_quiet: "quiet r \<Longrightarrow> quiet (r\<lparr>pc := Finished\<rparr>)"
  by (simp add: quiet_def)

lemma quiet_pc: "quiet r \<Longrightarrow> pc r \<noteq> Finished \<Longrightarrow> quiet (r\<lparr>pc := x\<rparr>)"
  by (auto simp: quiet_def)

lemma dead_finish:
  assumes "dead w" and "i < length (effects w)"
  shows "dead (w\<lparr>effects := (effects w)[i := (effects w ! i)\<lparr>pc := Finished\<rparr>]\<rparr>)"
proof -
  from assms have "quiet (effects w ! i)" by (simp add: dead_def)
  then have "quiet ((effects w ! i)\<lparr>pc := Finished\<rparr>)" by (rule finish_quiet)
  with assms(1) have "\<forall>r \<in> set ((effects w)[i := (effects w ! i)\<lparr>pc := Finished\<rparr>]). quiet r"
    by (intro set_update_quiet) (simp_all add: dead_def)
  with assms(1) show ?thesis by (simp add: dead_def)
qed

lemma dead_step: "dead w \<Longrightarrow> dead (step w e) \<and> ctx (step w e) = ctx w"
proof (cases e)
  case (ChainIdResolved i n)
  assume d: "dead w"
  show ?thesis
  proof (cases "i < length (effects w) \<and> pc (effects w ! i) = AwaitChainId")
    case True
    then have q: "quiet (effects w ! i)" using d by (simp add: dead_def)
    with True have nm: "\<not> mounted (effects w ! i)" by (simp add: quiet_def)
    from d True have "dead (w\<lparr>effects := (effects w)[i := (effects w ! i)\<lparr>pc := Finished\<rparr>]\<rparr>)"
      by (intro dead_finish) simp_all
    with nm True ChainIdResolved show ?thesis
      by (simp add: resume_chainId_def Let_def)
  next
    case False
    with d ChainIdResolved show ?thesis by auto
  qed
next
  case (AddressesResolved i as cs)
  assume d: "dead w"
  show ?thesis
  proof (cases "i < length (effects w) \<and> pc (effects w ! i) = AwaitAddresses")
    case True
    then have q: "quiet (effects w ! i)" using d by (simp add: dead_def)
    with True have nm: "\<not> mounted (effects w ! i)" by (simp add: quiet_def)
    from d True have "dead (w\<lparr>effects := (effects w)[i := (effects w ! i)\<lparr>pc := Finished\<rparr>]\<rparr>)"
      by (intro dead_finish) simp_all
    with nm True AddressesResolved show ?thesis
      by (simp add: resume_addresses_def Let_def)
  next
    case False
    with d AddressesResolved show ?thesis by auto
  qed
next
  case (QueryRejected i err)
  assume d: "dead w"
  show ?thesis
  proof (cases "i < length (effects w) \<and> pc (effects w ! i) \<noteq> Finished")
    case True
    from d True have "dead (w\<lparr>effects := (effects w)[i := (effects w ! i)\<lparr>pc := Finished\<rparr>]\<rparr>)"
      by (intro dead_finish) simp_all
    then have "dead (reject_query i err w)" by (simp add: reject_query_def dead_def)
    with True QueryRejected show ?thesis
      by (simp add: reject_query_def)
  next
    case False
    with d QueryRejected show ?thesis by auto
  qed
next
  case (AccountsChanged as)
  assume d: "dead w"
  then have "emit accountsChanged as w = w"
    by (intro emit_silent) (simp add: dead_def quiet_def)
  with d AccountsChanged show ?thesis by simp
next
  case (ContextAccountsChanged cs)
  assume d: "dead w"
  then have "emit contextAccountsChanged cs w = w"
    by (intro emit_silent) (simp add: dead_def quiet_def)
  with d ContextAccountsChanged show ?thesis by simp
next
  case (ChainChanged n)
  assume d: "dead w"
  then have "emit chainChanged n w = w"
    by (intro emit_silent) (simp add: dead_def quiet_def)
  with d ChainChanged show ?thesis by simp
next
  case Render
  assume "dead w"
  with Render show ?thesis by (simp add: render_def dead_def)
next
  case Unmount
  assume d: "dead w"
  have "\<forall>r \<in> set (effects (cleanup w)). quiet r"
    using d by (auto simp: cleanup_def dead_def quiet_def dest: in_set_butlastD)
  moreover have "ctx (cleanup w) = ctx w" by (simp add: cleanup_def)
  ultimately show ?thesis using Unmount by (simp add: unmount_def dead_def)
qed

lemma dead_run: "dead w \<Longrightarrow> dead (run w es) \<and> ctx (run w es) = ctx w"
  unfolding run_def
proof (induction es arbitrary: w)
  case Nil
  then show ?case by simp
next
  case (Cons e es)
  from Cons.prems have "dead (step w e)" and "ctx (step w e) = ctx w"
    using dead_step by blast+
  with Cons.IH [of "step w e"] show ?case by simp
qed

subsection \<open>Every reachable store is settled\<close>

lemma settled_update:
  assumes "settled w" and "i < length (effects w)" and "pc (effects w ! i) \<noteq> Finished"
    and "provider (ctx w') = provider (ctx w)"
    and "effects w' = (effects w)[i := (effects w ! i)\<lparr>pc := x\<rparr>]"
  shows "settled w'"
  unfolding settled_def
proof (intro allI impI)
  fix j
  assume j: "j < length (effects w')"
    and c: "provider (ctx w') = None \<or> Suc j < length (effects w')"
  from j c assms(1,4,5) have q: "quiet (effects w ! j)" by (auto simp: settled_def)
  show "quiet (effects w' ! j)"
  proof (cases "j = i")
    case True
    with q assms(2,3,5) show ?thesis by (simp add: quiet_pc)
  next
    case False
    with q assms(5) show ?thesis by simp
  qed
qed

lemma settled_emit:
  assumes "settled w" and "\<And>r a c. provider (h r a c) = provider c"
  shows "settled (emit h a w)"
  using assms(1) by (simp add: settled_def emit_def provider_emit [of h, OF assms(2)])

lemma cleanup_effects:
  "provider (ctx w) \<noteq> None \<Longrightarrow> effects w \<noteq> [] \<Longrightarrow>
   effects (cleanup w) =
     butlast (effects w) @ [(last (effects w))\<lparr>mounted := False, listening := False\<rparr>]"
  by (auto simp: cleanup_def)

lemma cleanup_all_quiet:
  assumes "settled w"
  shows "\<forall>r \<in> set (effects (cleanup w)). quiet r"
proof (cases "provider (ctx w) = None \<or> effects w = []")
  case True
  then have "cleanup w = w" by (simp add: cleanup_def)
  moreover from True assms have "\<forall>r \<in> set (effects w). quiet r"
    by (auto simp: settled_def in_set_conv_nth)
  ultimately show ?thesis by simp
next
  case False
  have "quiet r" if "r \<in> set (butlast (effects w))" for r
  proof -
    from that obtain i where "i < length (butlast (effects w))" and "butlast (effects w) ! i = r"
      by (auto simp: in_set_conv_nth)
    then have "Suc i < length (effects w)" and "effects w ! i = r"
      by (simp_all add: nth_butlast)
    with assms show ?thesis by (auto simp: settled_def)
  qed
  moreover have "quiet ((last (effects w))\<lparr>mounted := False, listening := False\<rparr>)"
    by (simp add: quiet_def)
  ultimately show ?thesis using False by (auto simp: cleanup_effects)
qed

lemma all_quiet_settled:
  "\<forall>r \<in> set (effects w). quiet r \<Longrightarrow> effects w' = effects w \<Longrightarrow> settled w'"
  by (simp add: settled_def)

lemma settled_append:
  assumes "\<forall>r \<in> set (effects w). quiet r" and "provider (ctx w) = None \<longrightarrow> quiet r'"
  shows "settled (w\<lparr>effects := effects w @ [r']\<rparr>)"
  using assms by (auto simp: settled_def nth_append less_Suc_eq)

lemma settled_step: "settled w \<Longrightarrow> settled (step w e)"
proof (cases e)
  case (ChainIdResolved i n)
  assume s: "settled w"
  show ?thesis
  proof (cases "i < length (effects w) \<and> pc (effects w ! i) = AwaitChainId")
    case True
    let ?x = "if mounted (effects w ! i) then AwaitAddresses else Finished"
    from True have pr: "provider (ctx (resume_chainId i n w)) = provider (ctx w)"
      and ef: "effects (resume_chainId i n w) = (effects w)[i := (effects w ! i)\<lparr>pc := ?x\<rparr>]"
      by (simp_all add: resume_chainId_def Let_def)
    from True have i: "i < length (effects w)" and p: "pc (effects w ! i) \<noteq> Finished"
      by simp_all
    have "settled (resume_chainId i n w)"
      by (rule settled_update [OF s i p pr ef])
    with True ChainIdResolved show ?thesis by simp
  next
    case False
    with s ChainIdResolved show ?thesis by auto
  qed
next
  case (AddressesResolved i as cs)
  assume s: "settled w"
  show ?thesis
  proof (cases "i < length (effects w) \<and> pc (effects w ! i) = AwaitAddresses")
    case True
    have pr: "provider (ctx (resume_addresses i as cs w)) = provider (ctx w)"
      and ef: "effects (resume_addresses i as cs w) =
                 (effects w)[i := (effects w ! i)\<lparr>pc := Finished\<rparr>]"
      by (simp_all add: resume_addresses_def Let_def)
    from True have i: "i < length (effects w)" and p: "pc (effects w ! i) \<noteq> Finished"
      by simp_all
    have "settled (resume_addresses i as cs w)"
      by (rule settled_update [OF s i p pr ef])
    with True AddressesResolved show ?thesis by simp
  next
    case False
    with s AddressesResolved show ?thesis by auto
  qed
next
  case (QueryRejected i err)
  assume s: "settled w"
  show ?thesis
  proof (cases "i < length (effects w) \<and> pc (effects w ! i) \<noteq> Finished")
    case True
    have pr: "provider (ctx (reject_query i err w)) = provider (ctx w)"
      and ef: "effects (reject_query i err w) =
                 (effects w)[i := (effects w ! i)\<lparr>pc := Finished\<rparr>]"
      by (simp_all add: reject_query_def)
    from True have i: "i < length (effects w)" and p: "pc (effects w ! i) \<noteq> Finished"
      by simp_all
    have "settled (reject_query i err w)"
      by (rule settled_update [OF s i p pr ef])
    with True QueryRejected show ?thesis by simp
  next
    case False
    with s QueryRejected show ?thesis by auto
  qed
next
  case (AccountsChanged as)
  assume "settled w"
  then have "settled (emit accountsChanged as w)"
    by (rule settled_emit) (simp add: accountsChanged_def)
  with AccountsChanged show ?thesis by simp
next
  case (ContextAccountsChanged cs)
  assume "settled w"
  then have "settled (emit contextAccountsChanged cs w)"
    by (rule settled_emit) (simp add: contextAccountsChanged_def)
  with ContextAccountsChanged show ?thesis by simp
next
  case (ChainChanged n)
  assume "settled w"
  then have "settled (emit chainChanged n w)"
    by (rule settled_emit) (simp add: chainChanged_def)
  with ChainChanged show ?thesis by simp
next
  case Render
  assume s: "settled w"
  have "settled (run_effect (cleanup w))"
    unfolding run_effect_def
  proof (rule settled_append)
    show "\<forall>r \<in> set (effects (cleanup w)). quiet r" using s by (rule cleanup_all_quiet)
    show "provider (ctx (cleanup w)) = None \<longrightarrow>
      quiet \<lparr>mounted = True, pc = init_start (ctx (cleanup w)),
        cap_accounts = accounts (ctx (cleanup w)),
        cap_contextAccounts = contextAccounts (ctx (cleanup w)),
        listening = (provider (ctx (cleanup w)) \<noteq> None)\<rparr>"
      by (simp add: quiet_def init_start_def)
  qed
  with s Render show ?thesis by (simp add: render_def)
next
  case Unmount
  assume s: "settled w"
  then have "\<forall>r \<in> set (effects (cleanup w)). quiet r" by (rule cleanup_all_quiet)
  then have "settled ((cleanup w)\<lparr>unmounted := True\<rparr>)" by (rule all_quiet_settled) simp
  with Unmount show ?thesis by (simp add: unmount_def)
qed

lemma settled_mount: "settled (mount p)"
  by (simp add: mount_def run_effect_def settled_def quiet_def init_start_def
      initial_context_def)

lemma settled_run: "settled w \<Longrightarrow> settled (run w es)"
  unfolding run_def by (induction es arbitrary: w) (simp_all add: settled_step)

lemma dead_unmount: "settled w \<Longrightarrow> dead (unmount w)"
  by (simp add: dead_def unmount_def cleanup_all_quiet)

lemma ctx_unmount: "ctx (unmount w) = ctx w"
  by (simp add: unmount_def cleanup_def)

text \<open>
  Claim C2. Take any store reached from mounting by any events, unmount it, and let
  anything happen afterwards: pending queries of any effect run resolve or fail in any
  order, the provider emits, a stray render or a second unmount arrives. The context
  (chain id, both account sequences, the connected flag, the selected address, the
  searching flag) stays what it was at the unmount: every pending result meets a cleared
  liveness flag, and no handler is registered any more.
\<close>

theorem no_write_after_unmount:
  "ctx (run (unmount (run (mount p) es)) es') = ctx (run (mount p) es)"
proof -
  have "settled (run (mount p) es)" by (simp add: settled_run settled_mount)
  then have "dead (unmount (run (mount p) es))" by (rule dead_unmount)
  then have "ctx (run (unmount (run (mount p) es)) es') = ctx (unmount (run (mount p) es))"
    by (simp add: dead_run)
  then show ?thesis by (simp add: ctx_unmount)
qed

subsection \<open>Without a provider\<close>

lemma dormant_mount: "dormant (mount None)"
  by (simp add: dormant_def mount_def run_effect_def idle_def init_start_def
      initial_context_def)

lemma dormant_step: "dormant w \<Longrightarrow> dormant (step w e)"
proof (cases e)
  case (ChainIdResolved i n)
  assume "dormant w"
  with ChainIdResolved show ?thesis by (auto simp: dormant_def idle_def)
next
  case (AddressesResolved i as cs)
  assume "dormant w"
  with AddressesResolved show ?thesis by (auto simp: dormant_def idle_def)
next
  case (QueryRejected i err)
  assume "dormant w"
  with QueryRejected show ?thesis by (auto simp: dormant_def idle_def)
next
  case (AccountsChanged as)
  assume d: "dormant w"
  then have "emit accountsChanged as w = w"
    by (intro emit_silent) (simp add: dormant_def idle_def)
  with d AccountsChanged show ?thesis by simp
next
  case (ContextAccountsChanged cs)
  assume d: "dormant w"
  then have "emit contextAccountsChanged cs w = w"
    by (intro emit_silent) (simp add: dormant_def idle_def)
  with d ContextAccountsChanged show ?thesis by simp
next
  case (ChainChanged n)
  assume d: "dormant w"
  then have "emit chainChanged n w = w"
    by (intro emit_silent) (simp add: dormant_def idle_def)
  with d ChainChanged show ?thesis by simp
next
  case Render
  assume d: "dormant w"
  then have "cleanup w = w" by (simp add: cleanup_def dormant_def initial_context_def)
  moreover from d have "dormant (run_effect w)"
    by (simp add: run_effect_def dormant_def idle_def init_start_def initial_context_def)
  ultimately show ?thesis using d Render by (simp add: render_def)
next
  case Unmount
  assume d: "dormant w"
  then have "cleanup w = w" by (simp add: cleanup_def dormant_def initial_context_def)
  with d Unmount show ?thesis by (simp add: unmount_def dormant_def)
qed

lemma dormant_run: "dormant w \<Longrightarrow> dormant (run w es)"
  unfolding run_def by (induction es arbitrary: w) (simp_all add: dormant_step)

text \<open>
  Claim C3. Mounted without a provider (and so without a client), \<^verbatim>\<open>init\<close> returns at
  its first line and no handler is registered. Whatever happens next, the store keeps
  chain id \<open>0\<close>, both account sequences empty and connected false, and nothing is
  raised: \<^verbatim>\<open>init\<close> has ended without waiting for a query, and not even its \<^verbatim>\<open>catch\<close>
  block has logged an error.
\<close>

theorem no_provider_terminal_default:
  "pc (last (effects (mount None))) = Finished \<and>
   chainId (ctx (run (mount None) es)) = 0 \<and>
   accounts (ctx (run (mount None) es)) = [] \<and>
   contextAccounts (ctx (run (mount None) es)) = [] \<and>
   walletConnected (ctx (run (mount None) es)) = False \<and>
   console (run (mount None) es) = []"
proof -
  have "dormant (run (mount None) es)" by (simp add: dormant_run dormant_mount)
  then have "ctx (run (mount None) es) = initial_context None"
    and "console (run (mount None) es) = []"
    by (simp_all add: dormant_def)
  moreover have "pc (last (effects (mount None))) = Finished"
    by (simp add: mount_def run_effect_def init_start_def initial_context_def)
  ultimately show ?thesis by (simp add: initial_context_def)
qed

subsection \<open>The accessor outside a provider\<close>

lemma useGrid_inside: "useGrid (c # cs) = Inr c"
  by (simp add: useGrid_def useContext_def)

text \<open>
  Claim C4. With no enclosing \<^verbatim>\<open>GridProvider\<close> the context read is the default
  \<^verbatim>\<open>undefined\<close>, and \<^verbatim>\<open>useGrid\<close> throws its configuration error; the result is a
  function of the enclosing scopes alone, so it is the same at every call, and no context
  value is returned.
\<close>

theorem useGrid_outside_throws:
  "useGrid [] = Inl (Error ''useGrid must be used within a GridProvider'')"
  by (simp add: useGrid_def useContext_def)

subsection \<open>The chain handler\<close>

lemma foldl_chainChanged:
  "foldl (\<lambda>c r. if listening r then chainChanged r n c else c) c0 rs =
     c0\<lparr>chainId := (if list_ex listening rs then n else chainId c0)\<rparr>"
  by (induction rs arbitrary: c0) (simp_all add: chainChanged_def)

text \<open>
  Claim C6. The handler of \<^verbatim>\<open>chainChanged\<close> replaces the chain id and nothing else:
  the local accounts, the counterpart accounts, the connected flag, the selected address
  and the searching flag of the context are what they were. The same holds for the store
  when the provider emits the event: only the chain id of its context changes (to the new
  value when a handler is registered), and no effect run, log entry or flag of the store is
  touched.
\<close>

theorem chainChanged_frame:
  "chainChanged r n c = c\<lparr>chainId := n\<rparr> \<and>
   accounts (chainChanged r n c) = accounts c \<and>
   contextAccounts (chainChanged r n c) = contextAccounts c \<and>
   walletConnected (chainChanged r n c) = walletConnected c \<and>
   selectedAddress (chainChanged r n c) = selectedAddress c \<and>
   isSearching (chainChanged r n c) = isSearching c \<and>
   step w (ChainChanged n) =
     w\<lparr>ctx := (ctx w)\<lparr>chainId := (if list_ex listening (effects w) then n
                                    else chainId (ctx w))\<rparr>\<rparr>"
  by (simp add: chainChanged_def emit_def foldl_chainChanged)

subsection \<open>The account handlers and their closures\<close>

text \<open>A handler computes the connected flag right when the arrays held by its closure
  are empty exactly when the stored ones are.\<close>

lemma accountsChanged_fresh:
  "(cap_contextAccounts r = []) = (contextAccounts c = []) \<Longrightarrow>
   walletConnected (accountsChanged r as c) =
     (accounts (accountsChanged r as c) \<noteq> [] \<and> contextAccounts (accountsChanged r as c) \<noteq> [])"
  by (simp add: accountsChanged_def)

lemma contextAccountsChanged_fresh:
  "(cap_accounts r = []) = (accounts c = []) \<Longrightarrow>
   walletConnected (contextAccountsChanged r cs c) =
     (accounts (contextAccountsChanged r cs c) \<noteq> [] \<and>
      contextAccounts (contextAccountsChanged r cs c) \<noteq> [])"
  by (simp add: contextAccountsChanged_def)

text \<open>
  Claim C1. The claim asks that after every \<^verbatim>\<open>accountsChanged\<close> and
  \<^verbatim>\<open>contextAccountsChanged\<close> event the connected flag is computed from the stored
  account sequences. The handlers instead read \<^verbatim>\<open>accounts\<close> and \<^verbatim>\<open>contextAccounts\<close>
  of the render that registered them. Mounted in a browser, the store receives
  \<^verbatim>\<open>accountsChanged(["0xA"])\<close> and then \<^verbatim>\<open>contextAccountsChanged(["0xB"])\<close> before
  React renders again: both handlers still hold the two empty arrays of the first render,
  and the store ends with both account sequences non-empty and connected false.
\<close>

theorem stale_closure_trace:
  "run (mount (Some UPProvider)) [AccountsChanged [''0xA''], ContextAccountsChanged [''0xB'']]
   = \<lparr>ctx = \<lparr>provider = Some UPProvider, client = Some WalletClient, chainId = 0,
              accounts = [''0xA''], contextAccounts = [''0xB''], walletConnected = False,
              selectedAddress = None, isSearching = False\<rparr>,
       effects = [\<lparr>mounted = True, pc = AwaitChainId, cap_accounts = [],
                   cap_contextAccounts = [], listening = True\<rparr>],
       console = [], unmounted = False\<rparr>"
  by (simp add: run_def mount_def run_effect_def emit_def accountsChanged_def
      contextAccountsChanged_def initial_context_def init_start_def)

section \<open>Properties of the profile card\<close>

lemma replace_prefix: "pat \<noteq> [] \<Longrightarrow> replace pat rep (pat @ rest) = rep @ rest"
  by (cases pat) simp_all

lemma gateway_plain: "CHR ''$'' \<notin> set IPFS_GATEWAY"
  by (simp add: IPFS_GATEWAY_def)

lemma first_url_ipfs:
  "images = Some (img # rest) \<Longrightarrow> url img = Some (''ipfs://'' @ cid) \<Longrightarrow>
   first_url images = Some (''ipfs://'' @ cid)"
  by (simp add: first_url_def truthy_def)

text \<open>
  Claim C7. For a fetched profile whose first profile image has the url
  \<^verbatim>\<open>ipfs://\<close> followed by \<open>cid\<close>, the avatar url the component exposes is the gateway
  prefix followed by \<open>cid\<close>; the same holds for the first background image and the
  background url. In particular \<^verbatim>\<open>ipfs://abc123\<close> becomes
  \<^verbatim>\<open>https://api.universalprofile.cloud/ipfs/abc123\<close>. The address asked for is
  non-empty, as it is whenever a profile is fetched at all.
\<close>

theorem ipfs_rewrite:
  assumes "truthy address"
  shows "(profileImage p = Some (img # rest) \<and> url img = Some (''ipfs://'' @ cid) \<longrightarrow>
            profileImgUrl (fetchProfileImage address (HasProfile (Some p)) s)
              = IPFS_GATEWAY @ cid) \<and>
         (backgroundImage p = Some (bg # rest') \<and> url bg = Some (''ipfs://'' @ cid') \<longrightarrow>
            profileBackground (fetchProfileImage address (HasProfile (Some p)) s)
              = IPFS_GATEWAY @ cid') \<and>
         replace ''ipfs://'' IPFS_GATEWAY ''ipfs://abc123''
           = ''https://api.universalprofile.cloud/ipfs/abc123''"
proof (intro conjI impI)
  have r: "replace ''ipfs://'' IPFS_GATEWAY (''ipfs://'' @ x) = IPFS_GATEWAY @ x" for x
    by (rule replace_prefix) simp
  {
    assume "profileImage p = Some (img # rest) \<and> url img = Some (''ipfs://'' @ cid)"
    then have "first_url (profileImage p) = Some (''ipfs://'' @ cid)"
      by (simp add: first_url_ipfs)
    with assms r [of cid]
    show "profileImgUrl (fetchProfileImage address (HasProfile (Some p)) s)
            = IPFS_GATEWAY @ cid"
      by (simp add: fetchProfileImage_def Let_def split: option.split)
  }
  {
    assume "backgroundImage p = Some (bg # rest') \<and> url bg = Some (''ipfs://'' @ cid')"
    then have "first_url (backgroundImage p) = Some (''ipfs://'' @ cid')"
      by (simp add: first_url_ipfs)
    with assms r [of cid']
    show "profileBackground (fetchProfileImage address (HasProfile (Some p)) s)
            = IPFS_GATEWAY @ cid'"
      by (simp add: fetchProfileImage_def Let_def split: option.split)
  }
  from r [of "''abc123''"]
  show "replace ''ipfs://'' IPFS_GATEWAY ''ipfs://abc123''
          = ''https://api.universalprofile.cloud/ipfs/abc123''"
    by (simp add: IPFS_GATEWAY_def)
qed

theorem ipfs_rewrite_witness:
  "truthy (Some ''0x1234'') \<and>
   profileImgUrl (fetchProfileImage (Some ''0x1234'')
      (HasProfile (Some \<lparr>name = Some ''Ann'',
                          profileImage = Some [\<lparr>url = Some ''ipfs://abc123''\<rparr>],
                          backgroundImage = Some [\<lparr>url = Some ''ipfs://def456''\<rparr>]\<rparr>))
      profile_initial) = ''https://api.universalprofile.cloud/ipfs/abc123'' \<and>
   profileBackground (fetchProfileImage (Some ''0x1234'')
      (HasProfile (Some \<lparr>name = Some ''Ann'',
                          profileImage = Some [\<lparr>url = Some ''ipfs://abc123''\<rparr>],
                          backgroundImage = Some [\<lparr>url = Some ''ipfs://def456''\<rparr>]\<rparr>))
      profile_initial) = ''https://api.universalprofile.cloud/ipfs/def456''"
proof -
  have t: "truthy (Some ''0x1234'')" by (simp add: truthy_def)
  show ?thesis
    using t ipfs_rewrite [OF t,
        where p = "\<lparr>name = Some ''Ann'',
             profileImage = Some [\<lparr>url = Some ''ipfs://abc123''\<rparr>],
             backgroundImage = Some [\<lparr>url = Some ''ipfs://def456''\<rparr>]\<rparr>"
          and img = "\<lparr>url = Some ''ipfs://abc123''\<rparr>" and rest = "[]"
          and cid = "''abc123''"
          and bg = "\<lparr>url = Some ''ipfs://def456''\<rparr>" and rest' = "[]"
          and cid' = "''def456''" and s = profile_initial]
    by (simp add: IPFS_GATEWAY_def)
qed

section \<open>Properties of the transfer form\<close>

subsection \<open>The amount validator\<close>

lemma min_text: "int_toString minAmount = ''1''"
  by (simp add: int_toString_def minAmount_def show_nat.simps digit_def)

lemma max_text: "int_toString maxAmount = ''1000''"
  by (simp add: int_toString_def maxAmount_def show_nat.simps digit_def)

lemma number_min: "number minAmount = Finite 1"
  by (simp add: number_def minAmount_def)

lemma number_max: "number maxAmount = Finite 1000"
  by (simp add: number_def maxAmount_def)

lemma validateAmount_eq:
  "validateAmount v d =
     d\<lparr>error := (if js_lt v (Finite 1) then ''Amount must be at least 1 LYX.''
                  else if js_lt (Finite 1000) v then ''Amount cannot exceed 1000 LYX.''
                  else []),
       amount := v\<rparr>"
  by (simp add: validateAmount_def min_text max_text number_min number_max js_gt_def)

lemma revalidate_same: "revalidate (validateAmount v d) = validateAmount v d"
  by (simp add: revalidate_def validateAmount_eq)

lemma above_not_below: "js_lt (Finite 1000) v \<Longrightarrow> \<not> js_lt v (Finite 1)"
  by (cases v) simp_all

text \<open>
  Claim C5. With the bounds \<open>1\<close> and \<open>1000\<close>, the validator maps \<open>0.5\<close> to the message
  \<^verbatim>\<open>Amount must be at least 1 LYX.\<close>, \<open>1500\<close> to \<^verbatim>\<open>Amount cannot exceed 1000 LYX.\<close>,
  and \<open>50\<close> to the empty message with \<open>50\<close> as the amount. In general a value below the
  minimum gets the first message, a value above the maximum the second, and a value that is
  neither gets the empty message; the value is stored as the amount in every case.
\<close>

theorem validateAmount_bounds:
  "validateAmount (Finite 0.5) d
     = d\<lparr>error := ''Amount must be at least 1 LYX.'', amount := Finite 0.5\<rparr> \<and>
   validateAmount (Finite 1500) d
     = d\<lparr>error := ''Amount cannot exceed 1000 LYX.'', amount := Finite 1500\<rparr> \<and>
   validateAmount (Finite 50) d = d\<lparr>error := [], amount := Finite 50\<rparr> \<and>
   (js_lt v (number minAmount) \<longrightarrow>
      error (validateAmount v d) = ''Amount must be at least 1 LYX.'') \<and>
   (js_gt v (number maxAmount) \<longrightarrow>
      error (validateAmount v d) = ''Amount cannot exceed 1000 LYX.'') \<and>
   (\<not> js_lt v (number minAmount) \<and> \<not> js_gt v (number maxAmount) \<longrightarrow>
      error (validateAmount v d) = []) \<and>
   amount (validateAmount v d) = v"
  by (simp add: validateAmount_eq number_min number_max js_gt_def above_not_below)

theorem validateAmount_bounds_witness:
  "js_lt (Finite 0.25) (number minAmount) \<and>
   error (validateAmount (Finite 0.25) Donate_initial) = ''Amount must be at least 1 LYX.'' \<and>
   js_gt Infinity (number maxAmount) \<and>
   error (validateAmount Infinity Donate_initial) = ''Amount cannot exceed 1000 LYX.'' \<and>
   \<not> js_lt (Finite 1000) (number minAmount) \<and> \<not> js_gt (Finite 1000) (number maxAmount) \<and>
   error (validateAmount (Finite 1000) Donate_initial) = []"
  using validateAmount_bounds [of Donate_initial "Finite 0.25"]
    validateAmount_bounds [of Donate_initial Infinity]
    validateAmount_bounds [of Donate_initial "Finite 1000"]
  by (simp add: number_min number_max js_gt_def)

text \<open>
  Claim C9. When \<^verbatim>\<open>Number.parseFloat\<close> yields \<^verbatim>\<open>NaN\<close> for the text of the input
  field, the input handler leaves the empty error message and stores \<^verbatim>\<open>NaN\<close> as the
  amount: both comparisons with \<^verbatim>\<open>NaN\<close> are false, so the validator takes its last
  branch.
\<close>

theorem NaN_passes_validation:
  "validateAmount NaN d = d\<lparr>error := [], amount := NaN\<rparr> \<and>
   (parseFloat txt = NaN \<longrightarrow>
      handleOnInput parseFloat txt d = d\<lparr>error := [], amount := NaN\<rparr>)"
  by (simp add: handleOnInput_def validateAmount_eq)

theorem NaN_passes_validation_witness:
  "(\<lambda>s. if s = [] then NaN else Finite 1) [] = NaN \<and>
   handleOnInput (\<lambda>s. if s = [] then NaN else Finite 1) []
      \<lparr>amount = Finite 2000, error = ''Amount cannot exceed 1000 LYX.''\<rparr>
     = \<lparr>amount = NaN, error = []\<rparr>"
  using NaN_passes_validation [of "\<lparr>amount = Finite 2000, error = ''Amount cannot exceed 1000 LYX.''\<rparr>"
      "\<lambda>s. if s = [] then NaN else Finite 1" "[]"]
  by simp

subsection \<open>The transfer action\<close>

lemma sendToken_guard:
  "client c = None \<or> \<not> walletConnected c \<or> falsy (amount d) \<Longrightarrow>
   sendToken toString parseUnits sendTransaction c sel d = ([], None)"
  by (simp add: sendToken_def)

lemma sendToken_submit:
  "client c \<noteq> None \<Longrightarrow> walletConnected c \<Longrightarrow> \<not> falsy (amount d) \<Longrightarrow>
   parseUnits (toString (amount d)) 18 = Inr v \<Longrightarrow>
   fst (sendToken toString parseUnits sendTransaction c sel d) =
     [\<lparr>tx_account = element0 (accounts c),
       tx_to = recipientAddress sel (contextAccounts c), tx_value = v\<rparr>]"
  by (simp add: sendToken_def Let_def)

text \<open>
  Claim C8, as the code has it. \<^verbatim>\<open>sendToken\<close> submits exactly one request to the client
  when the client is present, connected is true, the current amount is neither \<open>0\<close> nor
  \<^verbatim>\<open>NaN\<close>, and \<^verbatim>\<open>parseUnits\<close> accepts the text of the amount; the request carries the
  first local account, the recipient and the converted amount. It submits nothing and
  raises nothing whenever the client is absent or connected is false.
\<close>

theorem sendToken_submissions:
  "(client c \<noteq> None \<and> walletConnected c \<and> \<not> falsy (amount d) \<and>
    parseUnits (toString (amount d)) 18 = Inr v \<longrightarrow>
      fst (sendToken toString parseUnits sendTransaction c sel d) =
        [\<lparr>tx_account = element0 (accounts c),
          tx_to = recipientAddress sel (contextAccounts c), tx_value = v\<rparr>]) \<and>
   (client c = None \<or> \<not> walletConnected c \<longrightarrow>
      sendToken toString parseUnits sendTransaction c sel d = ([], None))"
  by (simp add: sendToken_submit sendToken_guard)

theorem sendToken_submissions_witness:
  "client ((initial_context (Some UPProvider))
      \<lparr>accounts := [''0xA''], contextAccounts := [''0xB''], walletConnected := True\<rparr>) \<noteq> None \<and>
   \<not> falsy (Finite 5) \<and>
   fst (sendToken (\<lambda>_. ''5'') (\<lambda>_ _. Inr 5000000000000000000) (\<lambda>_. Inr ''0xhash'')
      ((initial_context (Some UPProvider))
         \<lparr>accounts := [''0xA''], contextAccounts := [''0xB''], walletConnected := True\<rparr>)
      None \<lparr>amount = Finite 5, error = []\<rparr>)
     = [\<lparr>tx_account = Some ''0xA'', tx_to = Some ''0xB'', tx_value = 5000000000000000000\<rparr>] \<and>
   sendToken (\<lambda>_. ''5'') (\<lambda>_ _. Inr 5000000000000000000) (\<lambda>_. Inr ''0xhash'')
      (initial_context None) None \<lparr>amount = Finite 5, error = []\<rparr> = ([], None)"
  using sendToken_submissions [of
      "(initial_context (Some UPProvider))
         \<lparr>accounts := [''0xA''], contextAccounts := [''0xB''], walletConnected := True\<rparr>"
      "\<lparr>amount = Finite 5, error = []\<rparr>" "\<lambda>_ _. Inr 5000000000000000000" "\<lambda>_. ''5''"
      "5000000000000000000" "\<lambda>_. Inr ''0xhash''" None]
    sendToken_submissions [of "initial_context None"
      "\<lparr>amount = Finite 5, error = []\<rparr>" "\<lambda>_ _. Inr 5000000000000000000" "\<lambda>_. ''5''"
      "5000000000000000000" "\<lambda>_. Inr ''0xhash''" None]
  by (simp add: initial_context_def falsy_def element0_def recipientAddress_def truthy_def)

text \<open>Claim C8 as it is stated fails: with the client present and connected true, but
  the amount \<^verbatim>\<open>NaN\<close> (the input field was cleared), nothing is submitted.\<close>

theorem sendToken_connected_no_submission:
  "client ((initial_context (Some UPProvider))
      \<lparr>accounts := [''0xA''], contextAccounts := [''0xB''], walletConnected := True\<rparr>) \<noteq> None \<and>
   walletConnected ((initial_context (Some UPProvider))
      \<lparr>accounts := [''0xA''], contextAccounts := [''0xB''], walletConnected := True\<rparr>) \<and>
   length (fst (sendToken (\<lambda>_. ''NaN'') (\<lambda>_ _. Inr 0) (\<lambda>_. Inr ''0xhash'')
      ((initial_context (Some UPProvider))
         \<lparr>accounts := [''0xA''], contextAccounts := [''0xB''], walletConnected := True\<rparr>)
      None \<lparr>amount = NaN, error = []\<rparr>)) \<noteq> 1"
  by (simp add: sendToken_def initial_context_def falsy_def)

text \<open>
  Claim C10. Also with the client present and connected true, \<^verbatim>\<open>sendToken\<close> submits
  nothing and raises nothing when the current amount is \<open>0\<close> or \<^verbatim>\<open>NaN\<close>.
\<close>

theorem sendToken_falsy_amount:
  "amount d = Finite 0 \<or> amount d = NaN \<Longrightarrow>
   sendToken toString parseUnits sendTransaction
     (c\<lparr>client := Some WalletClient, walletConnected := True\<rparr>) sel d = ([], None)"
  by (rule sendToken_guard) (auto simp: falsy_def)

theorem sendToken_falsy_amount_witness:
  "(amount \<lparr>amount = Finite 0, error = []\<rparr> = Finite 0 \<or>
    amount \<lparr>amount = Finite 0, error = []\<rparr> = NaN) \<and>
   sendToken (\<lambda>_. ''0'') (\<lambda>_ _. Inr 0) (\<lambda>_. Inr ''0xhash'')
     ((initial_context (Some UPProvider))
        \<lparr>accounts := [''0xA''], contextAccounts := [''0xB''],
         client := Some WalletClient, walletConnected := True\<rparr>)
     None \<lparr>amount = Finite 0, error = []\<rparr> = ([], None)"
proof -
  have h: "amount \<lparr>amount = Finite 0, error = []\<rparr> = Finite 0 \<or>
           amount \<lparr>amount = Finite 0, error = []\<rparr> = NaN" by simp
  from sendToken_falsy_amount [OF h, of "\<lambda>_. ''0''" "\<lambda>_ _. Inr 0" "\<lambda>_. Inr ''0xhash''"
      "(initial_context (Some UPProvider))\<lparr>accounts := [''0xA''], contextAccounts := [''0xB'']\<rparr>"
      None]
  show ?thesis by simp
qed

end
